theory Spec2Isabelle
  imports Complex_Main
begin

section \<open>Data model\<close>

text \<open>
  The optimisation core of \<^verbatim>\<open>src/optimize.py\<close>: three bracketing line searches and two
  gradient descent drivers, all class methods of \<^verbatim>\<open>Optimize\<close> without instance state.

  Python floats are idealised as \<^typ>\<open>real\<close>: every arithmetic operation is exact, there is
  no rounding, no overflow and no NaN. What depends on the range of floats is stated on
  a second model of \<^verbatim>\<open>binary_search\<close> and \<^verbatim>\<open>golden_search\<close>, in which a result out of
  range is an infinity (section \<open>The range of floats\<close>). Iteration counters are natural numbers, the
  \<^verbatim>\<open>max_steps\<close> argument is a Python int (it may be negative, and \<^verbatim>\<open>range(max_steps)\<close>
  is then empty). A numpy vector is a list of reals.
\<close>

type_synonym vec = "real list"

text \<open>\<^verbatim>\<open>x - y\<close> and \<^verbatim>\<open>c * x\<close> on numpy vectors of one shape.\<close>

definition vsub :: "vec \<Rightarrow> vec \<Rightarrow> vec" where
  "vsub xs ys = map2 (-) xs ys"

definition smul :: "real \<Rightarrow> vec \<Rightarrow> vec" where
  "smul c xs = map ((*) c) xs"

text \<open>The exceptions that the arithmetic of the code can raise: a float division by
  zero, and a float power \<^verbatim>\<open>x ** 2\<close> whose result is out of the range of floats.\<close>

datatype py_error = ZeroDivisionError | OverflowError

text \<open>A result of this magnitude is out of range: under round-to-nearest an IEEE 754
  double can hold the values below \<^verbatim>\<open>2**1024 - 2**970\<close> only.\<close>

definition overflow_threshold :: real where
  "overflow_threshold = 2 ^ 1024 - 2 ^ 970"

text \<open>
  Modelled from the spec: the class \<^verbatim>\<open>OptimizeResults\<close> is imported from the module
  \<^verbatim>\<open>optimize_results\<close>, which is not part of the sources. The fields are the keyword
  arguments of the constructor calls in \<^verbatim>\<open>optimize.py\<close> (the Result record of the
  specification); \<^verbatim>\<open>fun\<close> is written \<open>fun_value\<close> and \<^verbatim>\<open>x\<close> is written \<open>x_opt\<close>.
  The attribute \<^verbatim>\<open>trajectory\<close> is set after construction, and only on request.
\<close>

record ('v, 'x) OptimizeResults =
  success :: bool
  message :: string
  fun_value :: 'v
  jac :: "'x option"
  nfev :: nat
  njev :: nat
  nhev :: nat
  nit :: nat
  x_opt :: 'x
  trajectory :: "'x list option"


section \<open>Line search methods\<close>

subsection \<open>\<^verbatim>\<open>binary_search\<close>\<close>

text \<open>The local variables that the loop of \<^verbatim>\<open>binary_search\<close> assigns.\<close>

record bs_state =
  bs_a :: real
  bs_b :: real
  bs_c :: real
  bs_success :: bool
  bs_nfev :: nat
  bs_nit :: nat

text \<open>The test \<^verbatim>\<open>abs(b - a) <= accuracy\<close> at the top of the loop body.\<close>

definition bs_stop :: "real \<Rightarrow> bs_state \<Rightarrow> bool" where
  "bs_stop accuracy s \<longleftrightarrow> \<bar>bs_b s - bs_a s\<bar> \<le> accuracy"

text \<open>The loop body after the test (lines 24 to 38).\<close>

definition bs_body :: "(real \<Rightarrow> real) \<Rightarrow> bs_state \<Rightarrow> bs_state" where
  "bs_body f s =
     (let a = bs_a s; b = bs_b s; c = bs_c s;
          s1 = s\<lparr>bs_nit := bs_nit s + 1\<rparr>;
          y = (a + c) / 2;
          s2 = s1\<lparr>bs_nfev := bs_nfev s1 + 2\<rparr>
      in if f y \<le> f c then s2\<lparr>bs_b := c, bs_c := y\<rparr>
         else
           (let s3 = s2\<lparr>bs_nfev := bs_nfev s2 + 2\<rparr>;
                z = (b + c) / 2
            in if f c \<le> f z then s3\<lparr>bs_a := y, bs_b := z\<rparr>
               else s3\<lparr>bs_a := c, bs_c := z\<rparr>))"

text \<open>\<^verbatim>\<open>for _ in range(max_steps)\<close> with its \<^verbatim>\<open>break\<close>; the first argument counts the
  iterations that are left.\<close>

fun bs_loop :: "(real \<Rightarrow> real) \<Rightarrow> real \<Rightarrow> nat \<Rightarrow> bs_state \<Rightarrow> bs_state" where
  "bs_loop f accuracy 0 s = s"
| "bs_loop f accuracy (Suc n) s =
     (if bs_stop accuracy s then s\<lparr>bs_success := True\<rparr>
      else bs_loop f accuracy n (bs_body f s))"

definition bs_init :: "real \<Rightarrow> real \<Rightarrow> bs_state" where
  "bs_init a b =
     \<lparr>bs_a = a, bs_b = b, bs_c = (a + b) / 2, bs_success = False, bs_nfev = 0, bs_nit = 0\<rparr>"

definition binary_search ::
  "(real \<Rightarrow> real) \<Rightarrow> real \<Rightarrow> real \<Rightarrow> real \<Rightarrow> int \<Rightarrow> (real, real) OptimizeResults" where
  "binary_search f a b accuracy max_steps =
     (let s = bs_loop f accuracy (nat max_steps) (bs_init a b)
      in \<lparr>success = bs_success s, message = '''', fun_value = f (bs_c s), jac = None,
          nfev = bs_nfev s, njev = 0, nhev = 0, nit = bs_nit s, x_opt = bs_c s,
          trajectory = None\<rparr>)"


subsection \<open>\<^verbatim>\<open>golden_search\<close>\<close>

definition tau :: real where
  "tau = (sqrt 5 + 1) / 2"

record gs_state =
  gs_a :: real
  gs_b :: real
  gs_y :: real
  gs_z :: real
  gs_success :: bool
  gs_nfev :: nat
  gs_nit :: nat

text \<open>The test \<^verbatim>\<open>b - a <= accuracy\<close> (no absolute value here).\<close>

definition gs_stop :: "real \<Rightarrow> gs_state \<Rightarrow> bool" where
  "gs_stop accuracy s \<longleftrightarrow> gs_b s - gs_a s \<le> accuracy"

text \<open>The loop body after the test (lines 65 to 74). The assignments are sequential:
  the new \<^verbatim>\<open>y\<close> of the first branch is computed from the new \<^verbatim>\<open>b\<close>, the new \<^verbatim>\<open>z\<close> of
  the second branch from the new \<^verbatim>\<open>a\<close>.\<close>

definition gs_body :: "(real \<Rightarrow> real) \<Rightarrow> gs_state \<Rightarrow> gs_state" where
  "gs_body f s =
     (let a = gs_a s; b = gs_b s; y = gs_y s; z = gs_z s;
          s1 = s\<lparr>gs_nit := gs_nit s + 1\<rparr>;
          s2 = s1\<lparr>gs_nfev := gs_nfev s1 + 2\<rparr>
      in if f y \<le> f z
         then s2\<lparr>gs_b := z, gs_z := y, gs_y := a + (z - a) / tau ^ 2\<rparr>
         else s2\<lparr>gs_a := y, gs_y := z, gs_z := y + (b - y) / tau\<rparr>)"

fun gs_loop :: "(real \<Rightarrow> real) \<Rightarrow> real \<Rightarrow> nat \<Rightarrow> gs_state \<Rightarrow> gs_state" where
  "gs_loop f accuracy 0 s = s"
| "gs_loop f accuracy (Suc n) s =
     (if gs_stop accuracy s then s\<lparr>gs_success := True\<rparr>
      else gs_loop f accuracy n (gs_body f s))"

definition gs_init :: "real \<Rightarrow> real \<Rightarrow> gs_state" where
  "gs_init a b =
     \<lparr>gs_a = a, gs_b = b, gs_y = a + (b - a) / tau ^ 2, gs_z = a + (b - a) / tau,
      gs_success = False, gs_nfev = 0, gs_nit = 0\<rparr>"

definition golden_search ::
  "(real \<Rightarrow> real) \<Rightarrow> real \<Rightarrow> real \<Rightarrow> real \<Rightarrow> int \<Rightarrow> (real, real) OptimizeResults" where
  "golden_search f a b accuracy max_steps =
     (let s = gs_loop f accuracy (nat max_steps) (gs_init a b);
          x = (gs_a s + gs_b s) / 2
      in \<lparr>success = gs_success s, message = '''', fun_value = f x, jac = None,
          nfev = gs_nfev s, njev = 0, nhev = 0, nit = gs_nit s, x_opt = x,
          trajectory = None\<rparr>)"


subsection \<open>\<^verbatim>\<open>parabolic_search\<close>\<close>

record ps_state =
  ps_x1 :: real
  ps_x2 :: real
  ps_x3 :: real
  ps_f1 :: real
  ps_f2 :: real
  ps_f3 :: real
  ps_nfev :: nat
  ps_nit :: nat

text \<open>The test \<^verbatim>\<open>x3 - x1 > accuracy\<close> that leaves the loop (line 100).\<close>

definition ps_stop :: "real \<Rightarrow> ps_state \<Rightarrow> bool" where
  "ps_stop accuracy s \<longleftrightarrow> ps_x3 s - ps_x1 s > accuracy"

text \<open>The vertex of the parabola through the three points (line 102), on Python
  floats. The two powers are evaluated first and raise \<^verbatim>\<open>OverflowError\<close> when the
  square is out of range; the division raises \<^verbatim>\<open>ZeroDivisionError\<close> when the divisor
  is zero. Both tests are made on the exact values here: the code makes them on the
  rounded ones, and its products and sums overflow to \<^verbatim>\<open>inf\<close> without an exception.\<close>

definition ps_vertex :: "ps_state \<Rightarrow> py_error + real" where
  "ps_vertex s =
     (let x1 = ps_x1 s; x2 = ps_x2 s; x3 = ps_x3 s;
          f1 = ps_f1 s; f2 = ps_f2 s; f3 = ps_f3 s
      in if overflow_threshold \<le> (x2 - x1) ^ 2 \<or> overflow_threshold \<le> (x2 - x3) ^ 2
         then Inl OverflowError
         else
           (let num = (x2 - x1) ^ 2 * (f2 - f3) - (x2 - x3) ^ 2 * (f2 - f1);
                den = 2 * ((x2 - x1) * (f2 - f3) - (x2 - x3) * (f2 - f1))
            in if den = 0 then Inl ZeroDivisionError else Inr (x2 - num / den)))"

text \<open>The loop body after the test (lines 102 to 120).\<close>

definition ps_body :: "(real \<Rightarrow> real) \<Rightarrow> ps_state \<Rightarrow> py_error + ps_state" where
  "ps_body f s =
     (case ps_vertex s of
        Inl e \<Rightarrow> Inl e
      | Inr u \<Rightarrow>
          (let x1 = ps_x1 s; x2 = ps_x2 s; x3 = ps_x3 s;
               f1 = ps_f1 s; f2 = ps_f2 s; f3 = ps_f3 s;
               fu = f u;
               s1 = s\<lparr>ps_nit := ps_nit s + 1, ps_nfev := ps_nfev s + 1\<rparr>
           in Inr
             (if x2 \<le> u then
                (if f2 \<le> fu
                 then s1\<lparr>ps_x1 := x1, ps_x2 := x2, ps_x3 := u,
                         ps_f1 := f1, ps_f2 := f2, ps_f3 := fu\<rparr>
                 else s1\<lparr>ps_x1 := x2, ps_x2 := u, ps_x3 := x3,
                         ps_f1 := f2, ps_f2 := fu, ps_f3 := f3\<rparr>)
              else
                (if fu \<le> f2
                 then s1\<lparr>ps_x1 := x1, ps_x2 := u, ps_x3 := x2,
                         ps_f1 := f1, ps_f2 := fu, ps_f3 := f2\<rparr>
                 else s1\<lparr>ps_x1 := u, ps_x2 := x2, ps_x3 := x3,
                         ps_f1 := fu, ps_f2 := f2, ps_f3 := f3\<rparr>))))"

text \<open>The loop: the \<^verbatim>\<open>break\<close> does not assign \<^verbatim>\<open>success\<close>.\<close>

fun ps_loop :: "(real \<Rightarrow> real) \<Rightarrow> real \<Rightarrow> nat \<Rightarrow> ps_state \<Rightarrow> py_error + ps_state" where
  "ps_loop f accuracy 0 s = Inr s"
| "ps_loop f accuracy (Suc n) s =
     (if ps_stop accuracy s then Inr s
      else (case ps_body f s of
              Inl e \<Rightarrow> Inl e
            | Inr s' \<Rightarrow> ps_loop f accuracy n s'))"

definition ps_init :: "(real \<Rightarrow> real) \<Rightarrow> real \<Rightarrow> real \<Rightarrow> ps_state" where
  "ps_init f a b =
     \<lparr>ps_x1 = a, ps_x2 = (a + b) / 2, ps_x3 = b,
      ps_f1 = f a, ps_f2 = f ((a + b) / 2), ps_f3 = f b, ps_nfev = 0, ps_nit = 0\<rparr>"

text \<open>The local \<^verbatim>\<open>success\<close> is set to \<^verbatim>\<open>False\<close> in line 91 and never assigned again.\<close>

definition parabolic_search ::
  "(real \<Rightarrow> real) \<Rightarrow> real \<Rightarrow> real \<Rightarrow> real \<Rightarrow> int \<Rightarrow> py_error + (real, real) OptimizeResults" where
  "parabolic_search f a b accuracy max_steps =
     (case ps_loop f accuracy (nat max_steps) (ps_init f a b) of
        Inl e \<Rightarrow> Inl e
      | Inr s \<Rightarrow>
          (let x = (ps_x1 s + ps_x3 s) / 2
           in Inr \<lparr>success = False, message = '''', fun_value = f x, jac = None,
                   nfev = ps_nfev s, njev = 0, nhev = 0, nit = ps_nit s, x_opt = x,
                   trajectory = None\<rparr>))"


section \<open>The range of floats\<close>









subsection \<open>\<^verbatim>\<open>binary_search\<close> on floats\<close>







subsection \<open>\<^verbatim>\<open>golden_search\<close> on floats\<close>








section \<open>First-order methods\<close>

text \<open>The optional argument \<^verbatim>\<open>accept_test\<close>: \<open>None\<close>, or a callable that is given
  the gradient function, the current point and the accuracy.\<close>

type_synonym accept_test = "(vec \<Rightarrow> vec) \<Rightarrow> vec \<Rightarrow> real \<Rightarrow> bool"

text \<open>The condition \<^verbatim>\<open>accept_test and accept_test(df, x, accuracy)\<close>.\<close>

definition accepts :: "accept_test option \<Rightarrow> (vec \<Rightarrow> vec) \<Rightarrow> vec \<Rightarrow> real \<Rightarrow> bool" where
  "accepts accept_test df x accuracy =
     (case accept_test of None \<Rightarrow> False | Some t \<Rightarrow> t df x accuracy)"

subsection \<open>\<^verbatim>\<open>gradient_descent\<close>\<close>

text \<open>The calls that the body of \<^verbatim>\<open>gradient_descent\<close> makes to the callables it was
  given, in the order of evaluation, each with its argument point.\<close>

datatype call = Call_f vec | Call_df vec | Call_accept_test vec

fun is_Call_f :: "call \<Rightarrow> bool" where
  "is_Call_f (Call_f _) = True"
| "is_Call_f _ = False"

text \<open>The local variables of \<^verbatim>\<open>gradient_descent\<close>, and the log of the calls made so far.\<close>

record gd_state =
  gd_x :: vec
  gd_success :: bool
  gd_nfev :: nat
  gd_njev :: nat
  gd_nit :: nat
  gd_trajectory :: "vec list"
  gd_calls :: "call list"

text \<open>The update \<^verbatim>\<open>x = x - step_size * df(x)\<close>.\<close>

definition gd_update :: "(vec \<Rightarrow> vec) \<Rightarrow> real \<Rightarrow> vec \<Rightarrow> vec" where
  "gd_update df step_size x = vsub x (smul step_size (df x))"

text \<open>The part of the loop body before the test: the trajectory is extended by the
  current point, then \<^verbatim>\<open>accept_test\<close> is called when it was supplied.\<close>

definition gd_record :: "bool \<Rightarrow> accept_test option \<Rightarrow> gd_state \<Rightarrow> gd_state" where
  "gd_record trajectory_flag accept_test s =
     (let s1 = (if trajectory_flag
                then s\<lparr>gd_trajectory := gd_trajectory s @ [gd_x s]\<rparr> else s)
      in case accept_test of
           None \<Rightarrow> s1
         | Some t \<Rightarrow> s1\<lparr>gd_calls := gd_calls s1 @ [Call_accept_test (gd_x s1)]\<rparr>)"

text \<open>The part of the loop body after the test (lines 155 to 157).\<close>

definition gd_step :: "(vec \<Rightarrow> vec) \<Rightarrow> real \<Rightarrow> gd_state \<Rightarrow> gd_state" where
  "gd_step df step_size s =
     s\<lparr>gd_x := gd_update df step_size (gd_x s),
       gd_calls := gd_calls s @ [Call_df (gd_x s)],
       gd_njev := gd_njev s + 1,
       gd_nit := gd_nit s + 1\<rparr>"

fun gd_loop ::
  "(vec \<Rightarrow> vec) \<Rightarrow> real \<Rightarrow> real \<Rightarrow> bool \<Rightarrow> accept_test option \<Rightarrow> nat \<Rightarrow> gd_state \<Rightarrow> gd_state"
where
  "gd_loop df step_size accuracy trajectory_flag accept_test 0 s = s"
| "gd_loop df step_size accuracy trajectory_flag accept_test (Suc n) s =
     (let s1 = gd_record trajectory_flag accept_test s
      in if accepts accept_test df (gd_x s1) accuracy then s1\<lparr>gd_success := True\<rparr>
         else gd_loop df step_size accuracy trajectory_flag accept_test n
                (gd_step df step_size s1))"

definition gd_init :: "vec \<Rightarrow> gd_state" where
  "gd_init x0 =
     \<lparr>gd_x = x0, gd_success = False, gd_nfev = 0, gd_njev = 0, gd_nit = 0,
      gd_trajectory = [], gd_calls = []\<rparr>"

text \<open>The state in which the loop is left.\<close>

definition gd_final ::
  "(vec \<Rightarrow> vec) \<Rightarrow> vec \<Rightarrow> real \<Rightarrow> int \<Rightarrow> real \<Rightarrow> bool \<Rightarrow> accept_test option \<Rightarrow> gd_state"
where
  "gd_final df x0 step_size max_steps accuracy trajectory_flag accept_test =
     gd_loop df step_size accuracy trajectory_flag accept_test (nat max_steps) (gd_init x0)"

definition gradient_descent ::
  "(vec \<Rightarrow> real) \<Rightarrow> (vec \<Rightarrow> vec) \<Rightarrow> vec \<Rightarrow> real \<Rightarrow> int \<Rightarrow> real \<Rightarrow> bool \<Rightarrow> accept_test option
     \<Rightarrow> (real, vec) OptimizeResults"
where
  "gradient_descent f df x0 step_size max_steps accuracy trajectory_flag accept_test =
     (let s = gd_final df x0 step_size max_steps accuracy trajectory_flag accept_test
      in \<lparr>success = gd_success s, message = '''', fun_value = f (gd_x s),
          jac = Some (df (gd_x s)), nfev = gd_nfev s, njev = gd_njev s, nhev = 0,
          nit = gd_nit s, x_opt = gd_x s,
          trajectory = (if trajectory_flag then Some (gd_trajectory s) else None)\<rparr>)"

text \<open>All calls of one run of \<^verbatim>\<open>gradient_descent\<close>: those of the loop, then \<^verbatim>\<open>f(x)\<close> and
  \<^verbatim>\<open>df(x)\<close> for the arguments \<^verbatim>\<open>fun\<close> and \<^verbatim>\<open>jac\<close> of the constructor.\<close>

definition gradient_descent_calls ::
  "(vec \<Rightarrow> vec) \<Rightarrow> vec \<Rightarrow> real \<Rightarrow> int \<Rightarrow> real \<Rightarrow> bool \<Rightarrow> accept_test option \<Rightarrow> call list"
where
  "gradient_descent_calls df x0 step_size max_steps accuracy trajectory_flag accept_test =
     (let s = gd_final df x0 step_size max_steps accuracy trajectory_flag accept_test
      in gd_calls s @ [Call_f (gd_x s), Call_df (gd_x s)])"


subsection \<open>\<^verbatim>\<open>steepest_gradient_descent\<close>\<close>

record sgd_state =
  sgd_x :: vec
  sgd_success :: bool
  sgd_nfev :: nat
  sgd_njev :: nat
  sgd_nit :: nat
  sgd_trajectory :: "vec list"

text \<open>Lines 193 to 195: the step length is the result of \<^verbatim>\<open>golden_search\<close> on
  \<^verbatim>\<open>[0, 1]\<close> with the default accuracy \<^verbatim>\<open>1e-5\<close> and 1000 steps.\<close>

definition sgd_update :: "(vec \<Rightarrow> real) \<Rightarrow> (vec \<Rightarrow> vec) \<Rightarrow> vec \<Rightarrow> vec" where
  "sgd_update f df x =
     (let grad = df x;
          step_size = golden_search (\<lambda>alpha. f (vsub x (smul alpha grad))) 0 1 (1 / 100000) 1000
      in vsub x (smul (x_opt step_size) grad))"

definition sgd_record :: "bool \<Rightarrow> sgd_state \<Rightarrow> sgd_state" where
  "sgd_record trajectory_flag s =
     (if trajectory_flag then s\<lparr>sgd_trajectory := sgd_trajectory s @ [sgd_x s]\<rparr> else s)"

definition sgd_step :: "(vec \<Rightarrow> real) \<Rightarrow> (vec \<Rightarrow> vec) \<Rightarrow> sgd_state \<Rightarrow> sgd_state" where
  "sgd_step f df s =
     s\<lparr>sgd_x := sgd_update f df (sgd_x s),
       sgd_njev := sgd_njev s + 1,
       sgd_nit := sgd_nit s + 1\<rparr>"

fun sgd_loop ::
  "(vec \<Rightarrow> real) \<Rightarrow> (vec \<Rightarrow> vec) \<Rightarrow> real \<Rightarrow> bool \<Rightarrow> accept_test option \<Rightarrow> nat \<Rightarrow> sgd_state
     \<Rightarrow> sgd_state"
where
  "sgd_loop f df accuracy trajectory_flag accept_test 0 s = s"
| "sgd_loop f df accuracy trajectory_flag accept_test (Suc n) s =
     (let s1 = sgd_record trajectory_flag s
      in if accepts accept_test df (sgd_x s1) accuracy then s1\<lparr>sgd_success := True\<rparr>
         else sgd_loop f df accuracy trajectory_flag accept_test n (sgd_step f df s1))"

definition sgd_init :: "vec \<Rightarrow> sgd_state" where
  "sgd_init x0 =
     \<lparr>sgd_x = x0, sgd_success = False, sgd_nfev = 0, sgd_njev = 0, sgd_nit = 0,
      sgd_trajectory = []\<rparr>"

definition steepest_gradient_descent ::
  "(vec \<Rightarrow> real) \<Rightarrow> (vec \<Rightarrow> vec) \<Rightarrow> vec \<Rightarrow> int \<Rightarrow> real \<Rightarrow> bool \<Rightarrow> accept_test option
     \<Rightarrow> (real, vec) OptimizeResults"
where
  "steepest_gradient_descent f df x0 max_steps accuracy trajectory_flag accept_test =
     (let s = sgd_loop f df accuracy trajectory_flag accept_test (nat max_steps) (sgd_init x0)
      in \<lparr>success = sgd_success s, message = '''', fun_value = f (sgd_x s),
          jac = Some (df (sgd_x s)), nfev = sgd_nfev s, njev = sgd_njev s, nhev = 0,
          nit = sgd_nit s, x_opt = sgd_x s,
          trajectory = (if trajectory_flag then Some (sgd_trajectory s) else None)\<rparr>)"


subsection \<open>The test problem of \<^verbatim>\<open>small_based_tests\<close>\<close>

text \<open>The local functions \<^verbatim>\<open>f\<close>, \<^verbatim>\<open>df\<close> and \<^verbatim>\<open>accept_test\<close> of \<^verbatim>\<open>small_based_tests\<close>
  (lines 216 to 221); \<^verbatim>\<open>np.linalg.norm\<close> is the Euclidean norm.\<close>

definition sbt_f :: "vec \<Rightarrow> real" where
  "sbt_f x = sum_list (map (\<lambda>x_i. (x_i - 1) ^ 2) x)"

definition sbt_df :: "vec \<Rightarrow> vec" where
  "sbt_df x = map (\<lambda>x_i. 2 * (x_i - 1)) x"

definition sbt_accept_test :: accept_test where
  "sbt_accept_test df x eps \<longleftrightarrow> (sqrt (sum_list (map (\<lambda>v. v ^ 2) (df x)))) ^ 2 \<le> eps"


section \<open>Properties of the line searches\<close>

subsection \<open>The golden ratio\<close>






subsection \<open>Fields that the loop bodies leave alone\<close>




subsection \<open>Floats that do not overflow\<close>

text \<open>An operation on finite floats is exact in the model as long as its value is below
  \<open>overflow_threshold\<close> in magnitude. A sum of two floats of a bracket is, and a
  difference too, when both endpoints are below half of it.\<close>

lemma overflow_threshold_pos: "0 < overflow_threshold"
  by (simp add: overflow_threshold_def)








subsection \<open>The bracket of \<^verbatim>\<open>binary_search\<close> on floats\<close>







subsection \<open>The bracket of \<^verbatim>\<open>golden_search\<close> on floats\<close>









subsection \<open>When the searches report success\<close>






subsection \<open>\<^verbatim>\<open>parabolic_search\<close>\<close>

lemma ps_loop_stop: "ps_stop acc s \<Longrightarrow> ps_loop f acc n s = Inr s"
  by (cases n) simp_all




text \<open>With a bracket that is not wider than the accuracy the loop goes on: one iteration
  on \<open>x\<^sup>2\<close> over \<open>[0, 1]\<close> with accuracy 2.\<close>

lemma parabolic_search_narrow_bracket_iterates:
  "parabolic_search (\<lambda>x. x * x) 0 1 2 1 =
     Inr \<lparr>success = False, message = '''', fun_value = 1 / 16, jac = None,
          nfev = 1, njev = 0, nhev = 0, nit = 1, x_opt = 1 / 4, trajectory = None\<rparr>"
  by (simp add: parabolic_search_def ps_init_def ps_stop_def ps_body_def ps_vertex_def
      overflow_threshold_def Let_def power2_eq_square)


section \<open>Properties of the descent drivers\<close>

lemma gd_record_x: "gd_x (gd_record tf tst s) = gd_x s"
  by (simp add: gd_record_def split: option.splits)

lemma gd_record_fields:
  "gd_success (gd_record tf tst s) = gd_success s"
  "gd_nfev (gd_record tf tst s) = gd_nfev s"
  "gd_njev (gd_record tf tst s) = gd_njev s"
  "gd_nit (gd_record tf tst s) = gd_nit s"
  by (simp_all add: gd_record_def split: option.splits)

lemma gd_record_trajectory:
  "gd_trajectory (gd_record tf tst s) = (if tf then gd_trajectory s @ [gd_x s] else gd_trajectory s)"
  by (simp add: gd_record_def split: option.splits)

lemma gd_record_calls:
  "filter is_Call_f (gd_calls (gd_record tf tst s)) = filter is_Call_f (gd_calls s)"
  by (simp add: gd_record_def split: option.splits)

lemma gd_step_fields:
  "gd_x (gd_step df ss s) = gd_update df ss (gd_x s)"
  "gd_success (gd_step df ss s) = gd_success s"
  "gd_nfev (gd_step df ss s) = gd_nfev s"
  "gd_njev (gd_step df ss s) = gd_njev s + 1"
  "gd_nit (gd_step df ss s) = gd_nit s + 1"
  "gd_trajectory (gd_step df ss s) = gd_trajectory s"
  by (simp_all add: gd_step_def)

lemma gd_step_calls:
  "filter is_Call_f (gd_calls (gd_step df ss s)) = filter is_Call_f (gd_calls s)"
  by (simp add: gd_step_def)

lemma gd_loop_Suc:
  "gd_loop df ss acc tf tst (Suc n) s =
     (if accepts tst df (gd_x s) acc then (gd_record tf tst s)\<lparr>gd_success := True\<rparr>
      else gd_loop df ss acc tf tst n (gd_step df ss (gd_record tf tst s)))"
  by (simp add: Let_def gd_record_x)

lemma sgd_record_fields:
  "sgd_x (sgd_record tf s) = sgd_x s"
  "sgd_success (sgd_record tf s) = sgd_success s"
  "sgd_nfev (sgd_record tf s) = sgd_nfev s"
  "sgd_njev (sgd_record tf s) = sgd_njev s"
  "sgd_nit (sgd_record tf s) = sgd_nit s"
  "sgd_trajectory (sgd_record tf s) =
     (if tf then sgd_trajectory s @ [sgd_x s] else sgd_trajectory s)"
  by (simp_all add: sgd_record_def)

lemma sgd_step_fields:
  "sgd_x (sgd_step f df s) = sgd_update f df (sgd_x s)"
  "sgd_success (sgd_step f df s) = sgd_success s"
  "sgd_nfev (sgd_step f df s) = sgd_nfev s"
  "sgd_njev (sgd_step f df s) = sgd_njev s + 1"
  "sgd_nit (sgd_step f df s) = sgd_nit s + 1"
  "sgd_trajectory (sgd_step f df s) = sgd_trajectory s"
  by (simp_all add: sgd_step_def)

lemma sgd_loop_Suc:
  "sgd_loop f df acc tf tst (Suc n) s =
     (if accepts tst df (sgd_x s) acc then (sgd_record tf s)\<lparr>sgd_success := True\<rparr>
      else sgd_loop f df acc tf tst n (sgd_step f df (sgd_record tf s)))"
  by (simp add: Let_def sgd_record_fields)


subsection \<open>Without \<^verbatim>\<open>accept_test\<close>\<close>

lemma gd_loop_no_test:
  "gd_success (gd_loop df ss acc tf None n s) = gd_success s \<and>
   gd_nit (gd_loop df ss acc tf None n s) = gd_nit s + n \<and>
   gd_x (gd_loop df ss acc tf None n s) = (gd_update df ss ^^ n) (gd_x s)"
proof (induction n arbitrary: s)
  case 0
  show ?case by simp
next
  case (Suc n)
  have "accepts None df (gd_x s) acc = False"
    by (simp add: accepts_def)
  then show ?case
    by (simp only: gd_loop_Suc Suc if_False)
       (simp add: gd_step_fields gd_record_fields gd_record_x funpow_swap1)
qed

lemma sgd_loop_no_test:
  "sgd_success (sgd_loop f df acc tf None n s) = sgd_success s \<and>
   sgd_nit (sgd_loop f df acc tf None n s) = sgd_nit s + n \<and>
   sgd_x (sgd_loop f df acc tf None n s) = (sgd_update f df ^^ n) (sgd_x s)"
proof (induction n arbitrary: s)
  case 0
  show ?case by simp
next
  case (Suc n)
  have "accepts None df (sgd_x s) acc = False"
    by (simp add: accepts_def)
  then show ?case
    by (simp only: sgd_loop_Suc Suc if_False)
       (simp add: sgd_step_fields sgd_record_fields funpow_swap1)
qed


subsection \<open>The trajectory\<close>

lemma gd_loop_trajectory_length:
  "\<not> gd_success s \<Longrightarrow>
   length (gd_trajectory (gd_loop df ss acc True tst n s)) + gd_nit s =
     length (gd_trajectory s) + gd_nit (gd_loop df ss acc True tst n s) +
     (if gd_success (gd_loop df ss acc True tst n s) then 1 else 0)"
proof (induction n arbitrary: s)
  case 0
  then show ?case by simp
next
  case (Suc n)
  show ?case
  proof (cases "accepts tst df (gd_x s) acc")
    case True
    then show ?thesis
      by (simp only: gd_loop_Suc if_True)
         (simp add: gd_record_fields gd_record_trajectory)
  next
    case False
    have "\<not> gd_success (gd_step df ss (gd_record True tst s))"
      using Suc.prems by (simp add: gd_step_fields gd_record_fields)
    from Suc.IH [OF this] False show ?thesis
      by (simp only: gd_loop_Suc if_False)
         (simp add: gd_step_fields gd_record_fields gd_record_trajectory)
  qed
qed

lemma gd_loop_trajectory_prefix:
  "\<exists>ys. gd_trajectory (gd_loop df ss acc tf tst n s) = gd_trajectory s @ ys"
proof (induction n arbitrary: s)
  case 0
  show ?case by simp
next
  case (Suc n)
  show ?case
  proof (cases "accepts tst df (gd_x s) acc")
    case True
    then show ?thesis
      by (simp only: gd_loop_Suc if_True) (simp add: gd_record_trajectory)
  next
    case False
    from Suc [of "gd_step df ss (gd_record tf tst s)"] False show ?thesis
      by (simp only: gd_loop_Suc if_False)
         (auto simp add: gd_step_fields gd_record_trajectory)
  qed
qed

lemma gd_loop_trajectory_first:
  "gd_trajectory s = [] \<Longrightarrow>
   gd_trajectory (gd_loop df ss acc True tst (Suc n) s) ! 0 = gd_x s"
proof (cases "accepts tst df (gd_x s) acc")
  case True
  assume "gd_trajectory s = []"
  with True show ?thesis
    by (simp only: gd_loop_Suc if_True) (simp add: gd_record_trajectory)
next
  case False
  assume e: "gd_trajectory s = []"
  obtain ys where
    "gd_trajectory (gd_loop df ss acc True tst n (gd_step df ss (gd_record True tst s))) =
       gd_trajectory (gd_step df ss (gd_record True tst s)) @ ys"
    using gd_loop_trajectory_prefix by blast
  with False e show ?thesis
    by (simp only: gd_loop_Suc if_False)
       (simp add: gd_step_fields gd_record_trajectory)
qed

lemma sgd_loop_trajectory_length:
  "\<not> sgd_success s \<Longrightarrow>
   length (sgd_trajectory (sgd_loop f df acc True tst n s)) + sgd_nit s =
     length (sgd_trajectory s) + sgd_nit (sgd_loop f df acc True tst n s) +
     (if sgd_success (sgd_loop f df acc True tst n s) then 1 else 0)"
proof (induction n arbitrary: s)
  case 0
  then show ?case by simp
next
  case (Suc n)
  show ?case
  proof (cases "accepts tst df (sgd_x s) acc")
    case True
    then show ?thesis
      by (simp only: sgd_loop_Suc if_True) (simp add: sgd_record_fields)
  next
    case False
    have "\<not> sgd_success (sgd_step f df (sgd_record True s))"
      using Suc.prems by (simp add: sgd_step_fields sgd_record_fields)
    from Suc.IH [OF this] False show ?thesis
      by (simp only: sgd_loop_Suc if_False)
         (simp add: sgd_step_fields sgd_record_fields)
  qed
qed

lemma sgd_loop_trajectory_prefix:
  "\<exists>ys. sgd_trajectory (sgd_loop f df acc tf tst n s) = sgd_trajectory s @ ys"
proof (induction n arbitrary: s)
  case 0
  show ?case by simp
next
  case (Suc n)
  show ?case
  proof (cases "accepts tst df (sgd_x s) acc")
    case True
    then show ?thesis
      by (simp only: sgd_loop_Suc if_True) (simp add: sgd_record_fields)
  next
    case False
    from Suc [of "sgd_step f df (sgd_record tf s)"] False show ?thesis
      by (simp only: sgd_loop_Suc if_False)
         (auto simp add: sgd_step_fields sgd_record_fields)
  qed
qed

lemma sgd_loop_trajectory_first:
  "sgd_trajectory s = [] \<Longrightarrow>
   sgd_trajectory (sgd_loop f df acc True tst (Suc n) s) ! 0 = sgd_x s"
proof (cases "accepts tst df (sgd_x s) acc")
  case True
  assume "sgd_trajectory s = []"
  with True show ?thesis
    by (simp only: sgd_loop_Suc if_True) (simp add: sgd_record_fields)
next
  case False
  assume e: "sgd_trajectory s = []"
  obtain ys where
    "sgd_trajectory (sgd_loop f df acc True tst n (sgd_step f df (sgd_record True s))) =
       sgd_trajectory (sgd_step f df (sgd_record True s)) @ ys"
    using sgd_loop_trajectory_prefix by blast
  with False e show ?thesis
    by (simp only: sgd_loop_Suc if_False)
       (simp add: sgd_step_fields sgd_record_fields)
qed


subsection \<open>Stopping by \<^verbatim>\<open>accept_test\<close>\<close>

lemma gd_loop_accept:
  "k < n \<Longrightarrow> accepts tst df ((gd_update df ss ^^ k) (gd_x s)) acc \<Longrightarrow>
   (\<forall>j<k. \<not> accepts tst df ((gd_update df ss ^^ j) (gd_x s)) acc) \<Longrightarrow>
   gd_success (gd_loop df ss acc tf tst n s) \<and>
   gd_x (gd_loop df ss acc tf tst n s) = (gd_update df ss ^^ k) (gd_x s) \<and>
   gd_nit (gd_loop df ss acc tf tst n s) = gd_nit s + k"
proof (induction k arbitrary: n s)
  case 0
  then obtain m where "n = Suc m" by (cases n) simp_all
  with 0 show ?case
    by (simp only: gd_loop_Suc) (simp add: gd_record_x gd_record_fields)
next
  case (Suc k)
  then obtain m where m: "n = Suc m" "k < m" by (cases n) simp_all
  let ?s = "gd_step df ss (gd_record tf tst s)"
  have x: "gd_x ?s = gd_update df ss (gd_x s)"
    by (simp add: gd_step_fields gd_record_x)
  have first: "\<not> accepts tst df (gd_x s) acc"
    using Suc.prems(3) by (auto dest: spec [of _ 0])
  have a: "accepts tst df ((gd_update df ss ^^ k) (gd_x ?s)) acc"
    using Suc.prems(2) by (simp add: x funpow_swap1)
  have b: "\<forall>j<k. \<not> accepts tst df ((gd_update df ss ^^ j) (gd_x ?s)) acc"
  proof (intro allI impI)
    fix j assume "j < k"
    then have "Suc j < Suc k" by simp
    with Suc.prems(3) have "\<not> accepts tst df ((gd_update df ss ^^ Suc j) (gd_x s)) acc"
      by blast
    then show "\<not> accepts tst df ((gd_update df ss ^^ j) (gd_x ?s)) acc"
      by (simp add: x funpow_swap1)
  qed
  from Suc.IH [OF m(2) a b] first show ?case
    by (simp only: m(1) gd_loop_Suc if_False)
       (simp add: x gd_step_fields gd_record_fields gd_record_x funpow_swap1)
qed

lemma sgd_loop_accept:
  "k < n \<Longrightarrow> accepts tst df ((sgd_update f df ^^ k) (sgd_x s)) acc \<Longrightarrow>
   (\<forall>j<k. \<not> accepts tst df ((sgd_update f df ^^ j) (sgd_x s)) acc) \<Longrightarrow>
   sgd_success (sgd_loop f df acc tf tst n s) \<and>
   sgd_x (sgd_loop f df acc tf tst n s) = (sgd_update f df ^^ k) (sgd_x s) \<and>
   sgd_nit (sgd_loop f df acc tf tst n s) = sgd_nit s + k"
proof (induction k arbitrary: n s)
  case 0
  then obtain m where "n = Suc m" by (cases n) simp_all
  with 0 show ?case
    by (simp only: sgd_loop_Suc) (simp add: sgd_record_fields)
next
  case (Suc k)
  then obtain m where m: "n = Suc m" "k < m" by (cases n) simp_all
  let ?s = "sgd_step f df (sgd_record tf s)"
  have x: "sgd_x ?s = sgd_update f df (sgd_x s)"
    by (simp add: sgd_step_fields sgd_record_fields)
  have first: "\<not> accepts tst df (sgd_x s) acc"
    using Suc.prems(3) by (auto dest: spec [of _ 0])
  have a: "accepts tst df ((sgd_update f df ^^ k) (sgd_x ?s)) acc"
    using Suc.prems(2) by (simp add: x funpow_swap1)
  have b: "\<forall>j<k. \<not> accepts tst df ((sgd_update f df ^^ j) (sgd_x ?s)) acc"
  proof (intro allI impI)
    fix j assume "j < k"
    then have "Suc j < Suc k" by simp
    with Suc.prems(3) have "\<not> accepts tst df ((sgd_update f df ^^ Suc j) (sgd_x s)) acc"
      by blast
    then show "\<not> accepts tst df ((sgd_update f df ^^ j) (sgd_x ?s)) acc"
      by (simp add: x funpow_swap1)
  qed
  from Suc.IH [OF m(2) a b] first show ?case
    by (simp only: m(1) sgd_loop_Suc if_False)
       (simp add: x sgd_step_fields sgd_record_fields funpow_swap1)
qed






subsection \<open>Calls of the objective\<close>

lemma gd_loop_no_f:
  "gd_nfev (gd_loop df ss acc tf tst n s) = gd_nfev s \<and>
   filter is_Call_f (gd_calls (gd_loop df ss acc tf tst n s)) = filter is_Call_f (gd_calls s)"
proof (induction n arbitrary: s)
  case 0
  show ?case by simp
next
  case (Suc n)
  show ?case
  proof (cases "accepts tst df (gd_x s) acc")
    case True
    then show ?thesis
      by (simp only: gd_loop_Suc if_True) (simp add: gd_record_fields gd_record_calls)
  next
    case False
    then show ?thesis
      by (simp only: gd_loop_Suc if_False Suc)
         (simp add: gd_step_fields gd_step_calls gd_record_fields gd_record_calls)
  qed
qed


section \<open>The claims\<close>

text \<open>C1: of the five operations, \<^verbatim>\<open>parabolic_search\<close> does not report how its loop ended.
  On \<open>f = abs\<close> over \<open>[-1, 3]\<close> with accuracy \<open>1e-5\<close> and 1000 steps the test of line 100
  holds for the initial triple, so the loop is left by \<^verbatim>\<open>break\<close> before the first of
  the 1000 iterations, and the result has \<^verbatim>\<open>success = False\<close> with no iteration counted.
  (The other four operations set \<^verbatim>\<open>success\<close> at their \<^verbatim>\<open>break\<close>: see
  \<open>binary_search_success\<close>, \<open>golden_search_success\<close>, \<open>gradient_descent_success\<close> and
  \<open>steepest_gradient_descent_success\<close>.)\<close>

theorem parabolic_search_break_without_success:
  "parabolic_search abs (- 1) 3 (1 / 100000) 1000 =
     Inr \<lparr>success = False, message = '''', fun_value = 1, jac = None,
          nfev = 0, njev = 0, nhev = 0, nit = 0, x_opt = 1, trajectory = None\<rparr> \<and>
   ps_stop (1 / 100000) (ps_init abs (- 1) 3) \<and> (0::nat) < nat 1000"
proof -
  have "ps_stop (1 / 100000) (ps_init abs (- 1) 3)"
    by (simp add: ps_stop_def ps_init_def)
  then show ?thesis
    by (simp add: parabolic_search_def ps_loop_stop Let_def) (simp add: ps_init_def)
qed

text \<open>C2: \<^verbatim>\<open>parabolic_search\<close> does not iterate until \<open>x3 - x1 \<le> accuracy\<close>. Whenever the
  initial bracket is wider than the accuracy, the loop is left at its first test: no
  parabola is fitted, no iteration is counted, and the midpoint of the initial bracket
  is returned.\<close>

theorem parabolic_search_wide_bracket:
  "accuracy < b - a \<Longrightarrow>
   parabolic_search f a b accuracy max_steps =
     Inr \<lparr>success = False, message = '''', fun_value = f ((a + b) / 2), jac = None,
          nfev = 0, njev = 0, nhev = 0, nit = 0, x_opt = (a + b) / 2, trajectory = None\<rparr>"
proof -
  assume "accuracy < b - a"
  then have "ps_stop accuracy (ps_init f a b)"
    by (simp add: ps_stop_def ps_init_def)
  then show ?thesis
    by (simp add: parabolic_search_def ps_loop_stop Let_def) (simp add: ps_init_def)
qed

text \<open>The bracket \<open>[0, 4]\<close> with accuracy \<open>1e-4\<close> for \<open>(x - 1)\<^sup>2\<close>, whose minimiser is 1:
  the result is 2.\<close>

theorem parabolic_search_wide_bracket_witness:
  "(1 / 10000 :: real) < 4 - 0 \<and>
   parabolic_search (\<lambda>x. (x - 1) ^ 2) 0 4 (1 / 10000) 1000 =
     Inr \<lparr>success = False, message = '''', fun_value = 1, jac = None,
          nfev = 0, njev = 0, nhev = 0, nit = 0, x_opt = 2, trajectory = None\<rparr>"
  using parabolic_search_wide_bracket [of "1 / 10000" 4 0 "\<lambda>x. (x - 1) ^ 2" 1000] by simp

text \<open>C3, in the form that the code satisfies: with \<^verbatim>\<open>trajectory_flag = True\<close> the trajectory of
  \<^verbatim>\<open>gradient_descent\<close> and of \<^verbatim>\<open>steepest_gradient_descent\<close> has as many entries as
  iterations were counted when the loop runs to \<^verbatim>\<open>max_steps\<close>, and one entry more when
  \<^verbatim>\<open>accept_test\<close> stops it (the accepted point is recorded before the test); with
  \<^verbatim>\<open>max_steps\<close> at least 1 its first entry is the starting point.\<close>

theorem trajectory_length:
  "(let r = gradient_descent f df x0 step_size max_steps accuracy True accept_test
    in \<exists>t. trajectory r = Some t \<and>
           length t = nit r + (if success r then 1 else 0) \<and>
           (1 \<le> max_steps \<longrightarrow> t ! 0 = x0)) \<and>
   (let r = steepest_gradient_descent g dg y0 max_steps accuracy True accept_test
    in \<exists>t. trajectory r = Some t \<and>
           length t = nit r + (if success r then 1 else 0) \<and>
           (1 \<le> max_steps \<longrightarrow> t ! 0 = y0))"
proof -
  have g0: "\<not> gd_success (gd_init x0)" "gd_trajectory (gd_init x0) = []"
    "gd_nit (gd_init x0) = 0" "gd_x (gd_init x0) = x0"
    by (simp_all add: gd_init_def)
  have s0: "\<not> sgd_success (sgd_init y0)" "sgd_trajectory (sgd_init y0) = []"
    "sgd_nit (sgd_init y0) = 0" "sgd_x (sgd_init y0) = y0"
    by (simp_all add: sgd_init_def)
  have n: "1 \<le> max_steps \<Longrightarrow> \<exists>m. nat max_steps = Suc m"
    by (cases "nat max_steps") simp_all
  have "length (gd_trajectory (gd_loop df step_size accuracy True accept_test (nat max_steps) (gd_init x0))) =
      gd_nit (gd_loop df step_size accuracy True accept_test (nat max_steps) (gd_init x0)) +
      (if gd_success (gd_loop df step_size accuracy True accept_test (nat max_steps) (gd_init x0)) then 1 else 0)"
    using gd_loop_trajectory_length [OF g0(1), of df step_size accuracy accept_test "nat max_steps"]
    by (simp add: g0)
  moreover have "1 \<le> max_steps \<Longrightarrow>
      gd_trajectory (gd_loop df step_size accuracy True accept_test (nat max_steps) (gd_init x0)) ! 0 = x0"
    using gd_loop_trajectory_first [OF g0(2)] n by (auto simp add: g0)
  moreover have "length (sgd_trajectory (sgd_loop g dg accuracy True accept_test (nat max_steps) (sgd_init y0))) =
      sgd_nit (sgd_loop g dg accuracy True accept_test (nat max_steps) (sgd_init y0)) +
      (if sgd_success (sgd_loop g dg accuracy True accept_test (nat max_steps) (sgd_init y0)) then 1 else 0)"
    using sgd_loop_trajectory_length [OF s0(1), of g dg accuracy accept_test "nat max_steps"]
    by (simp add: s0)
  moreover have "1 \<le> max_steps \<Longrightarrow>
      sgd_trajectory (sgd_loop g dg accuracy True accept_test (nat max_steps) (sgd_init y0)) ! 0 = y0"
    using sgd_loop_trajectory_first [OF s0(2)] n by (auto simp add: s0)
  ultimately show ?thesis
    by (simp add: gradient_descent_def gd_final_def steepest_gradient_descent_def Let_def)
qed

text \<open>Two steps from \<open>[4, 3]\<close> on the test problem, and a start at the minimiser \<open>[1, 1]\<close>.\<close>

theorem trajectory_length_witness:
  "(1::int) \<le> 2 \<and>
   (let r = gradient_descent sbt_f sbt_df [4, 3] (1 / 10) 2 (1 / 1000000) True
              (Some sbt_accept_test)
    in \<exists>t. trajectory r = Some t \<and>
           length t = nit r + (if success r then 1 else 0) \<and> t ! 0 = [4, 3]) \<and>
   (let r = steepest_gradient_descent sbt_f sbt_df [1, 1] 2 (1 / 1000000) True
              (Some sbt_accept_test)
    in \<exists>t. trajectory r = Some t \<and>
           length t = nit r + (if success r then 1 else 0) \<and> t ! 0 = [1, 1])"
  using trajectory_length [of sbt_f sbt_df "[4, 3]" "1 / 10" 2 "1 / 1000000" "Some sbt_accept_test"
      sbt_f sbt_df "[1, 1]"]
  by (simp add: Let_def)

text \<open>The claim as stated fails when \<^verbatim>\<open>accept_test\<close> stops the loop: started at the
  minimiser \<open>[1, 1]\<close> of the test problem, \<^verbatim>\<open>gradient_descent\<close> records one point and
  counts no iteration.\<close>

theorem trajectory_length_counterexample:
  "trajectory (gradient_descent sbt_f sbt_df [1, 1] (1 / 10) 2000 (1 / 1000000) True
      (Some sbt_accept_test)) = Some [[1, 1]] \<and>
   nit (gradient_descent sbt_f sbt_df [1, 1] (1 / 10) 2000 (1 / 1000000) True
      (Some sbt_accept_test)) = 0 \<and>
   success (gradient_descent sbt_f sbt_df [1, 1] (1 / 10) 2000 (1 / 1000000) True
      (Some sbt_accept_test)) \<and>
   length (the (trajectory (gradient_descent sbt_f sbt_df [1, 1] (1 / 10) 2000 (1 / 1000000)
      True (Some sbt_accept_test)))) \<noteq>
   nit (gradient_descent sbt_f sbt_df [1, 1] (1 / 10) 2000 (1 / 1000000) True
      (Some sbt_accept_test))"
proof -
  have n: "nat 2000 = Suc 1999" by simp
  show ?thesis
    by (simp only: gradient_descent_def gd_final_def n gd_loop_Suc)
       (simp add: accepts_def sbt_accept_test_def sbt_df_def gd_init_def gd_record_def)
qed




text \<open>C5: when \<^verbatim>\<open>accept_test\<close> is supplied and first holds at the top of iteration \<open>k\<close>
  (counted from 0, below \<^verbatim>\<open>max_steps\<close>), the loop of \<^verbatim>\<open>gradient_descent\<close> and of
  \<^verbatim>\<open>steepest_gradient_descent\<close> stops there with \<^verbatim>\<open>success = True\<close>: the solution is the
  point reached by \<open>k\<close> updates, to which no further update is applied, and \<open>k\<close>
  iterations are counted.\<close>

theorem accept_test_stops_before_update:
  "(k < nat max_steps \<and> tst df ((gd_update df step_size ^^ k) x0) accuracy \<and>
    (\<forall>j<k. \<not> tst df ((gd_update df step_size ^^ j) x0) accuracy) \<longrightarrow>
    (let r = gradient_descent f df x0 step_size max_steps accuracy trajectory_flag (Some tst)
     in success r \<and> x_opt r = (gd_update df step_size ^^ k) x0 \<and> nit r = k)) \<and>
   (k < nat max_steps \<and> tst dg ((sgd_update g dg ^^ k) y0) accuracy \<and>
    (\<forall>j<k. \<not> tst dg ((sgd_update g dg ^^ j) y0) accuracy) \<longrightarrow>
    (let r = steepest_gradient_descent g dg y0 max_steps accuracy trajectory_flag (Some tst)
     in success r \<and> x_opt r = (sgd_update g dg ^^ k) y0 \<and> nit r = k))"
proof (intro conjI impI)
  assume h: "k < nat max_steps \<and> tst df ((gd_update df step_size ^^ k) x0) accuracy \<and>
    (\<forall>j<k. \<not> tst df ((gd_update df step_size ^^ j) x0) accuracy)"
  have "gd_x (gd_init x0) = x0" "gd_nit (gd_init x0) = 0"
    by (simp_all add: gd_init_def)
  with h gd_loop_accept [of k "nat max_steps" "Some tst" df step_size "gd_init x0" accuracy trajectory_flag]
  show "let r = gradient_descent f df x0 step_size max_steps accuracy trajectory_flag (Some tst)
     in success r \<and> x_opt r = (gd_update df step_size ^^ k) x0 \<and> nit r = k"
    by (simp add: gradient_descent_def gd_final_def accepts_def Let_def)
next
  assume h: "k < nat max_steps \<and> tst dg ((sgd_update g dg ^^ k) y0) accuracy \<and>
    (\<forall>j<k. \<not> tst dg ((sgd_update g dg ^^ j) y0) accuracy)"
  have "sgd_x (sgd_init y0) = y0" "sgd_nit (sgd_init y0) = 0"
    by (simp_all add: sgd_init_def)
  with h sgd_loop_accept [of k "nat max_steps" "Some tst" dg g "sgd_init y0" accuracy trajectory_flag]
  show "let r = steepest_gradient_descent g dg y0 max_steps accuracy trajectory_flag (Some tst)
     in success r \<and> x_opt r = (sgd_update g dg ^^ k) y0 \<and> nit r = k"
    by (simp add: steepest_gradient_descent_def accepts_def Let_def)
qed

text \<open>On the test problem with accuracy 40, \<^verbatim>\<open>gradient_descent\<close> from \<open>[4, 3]\<close> is accepted
  after one update; \<^verbatim>\<open>steepest_gradient_descent\<close> from \<open>[1, 1]\<close> is accepted at once.\<close>

theorem accept_test_stops_before_update_witness:
  "(1 < nat 5 \<and> sbt_accept_test sbt_df ((gd_update sbt_df (1 / 10) ^^ 1) [4, 3]) 40 \<and>
    \<not> sbt_accept_test sbt_df ((gd_update sbt_df (1 / 10) ^^ 0) [4, 3]) 40) \<and>
   (let r = gradient_descent sbt_f sbt_df [4, 3] (1 / 10) 5 40 False (Some sbt_accept_test)
    in success r \<and> x_opt r = [17 / 5, 13 / 5] \<and> nit r = 1) \<and>
   (0 < nat 5 \<and> sbt_accept_test sbt_df ((sgd_update sbt_f sbt_df ^^ 0) [1, 1]) 40) \<and>
   (let r = steepest_gradient_descent sbt_f sbt_df [1, 1] 5 40 False (Some sbt_accept_test)
    in success r \<and> x_opt r = [1, 1] \<and> nit r = 0)"
proof -
  have x1: "gd_update sbt_df (1 / 10) [4, 3] = [17 / 5, 13 / 5]"
    by (simp add: gd_update_def sbt_df_def vsub_def smul_def)
  have h1: "1 < nat 5 \<and> sbt_accept_test sbt_df ((gd_update sbt_df (1 / 10) ^^ 1) [4, 3]) 40 \<and>
    (\<forall>j<1. \<not> sbt_accept_test sbt_df ((gd_update sbt_df (1 / 10) ^^ j) [4, 3]) 40)"
    by (simp add: x1 sbt_accept_test_def sbt_df_def power2_eq_square)
  have h2: "0 < nat 5 \<and> sbt_accept_test sbt_df ((sgd_update sbt_f sbt_df ^^ 0) [1, 1]) 40 \<and>
    (\<forall>j<0. \<not> sbt_accept_test sbt_df ((sgd_update sbt_f sbt_df ^^ j) [1, 1]) 40)"
    by (simp add: sbt_accept_test_def sbt_df_def)
  from h1 h2
    accept_test_stops_before_update [where k = 1 and max_steps = 5
      and tst = sbt_accept_test and df = sbt_df and step_size = "1 / 10"
      and ?x0.0 = "[4, 3]" and accuracy = 40 and f = sbt_f and trajectory_flag = False]
    accept_test_stops_before_update [where k = 0 and max_steps = 5
      and tst = sbt_accept_test and dg = sbt_df
      and ?y0.0 = "[1, 1]" and accuracy = 40 and g = sbt_f and trajectory_flag = False]
  show ?thesis
    by (simp add: x1 Let_def)
qed

text \<open>C6: without \<^verbatim>\<open>accept_test\<close> the loop of \<^verbatim>\<open>gradient_descent\<close> and of
  \<^verbatim>\<open>steepest_gradient_descent\<close> performs exactly \<^verbatim>\<open>max_steps\<close> updates, whatever the
  objective, the gradient and the starting point are: the result has \<^verbatim>\<open>success = False\<close>
  and \<^verbatim>\<open>nit = max_steps\<close>. (A negative \<^verbatim>\<open>max_steps\<close> is no number of iterations:
  \<^verbatim>\<open>range\<close> is then empty.)\<close>

theorem no_accept_test_runs_max_steps:
  "0 \<le> max_steps \<Longrightarrow>
   (let r = gradient_descent f df x0 step_size max_steps accuracy trajectory_flag None
    in \<not> success r \<and> int (nit r) = max_steps \<and>
       x_opt r = (gd_update df step_size ^^ nat max_steps) x0) \<and>
   (let r = steepest_gradient_descent g dg y0 max_steps accuracy trajectory_flag None
    in \<not> success r \<and> int (nit r) = max_steps \<and>
       x_opt r = (sgd_update g dg ^^ nat max_steps) y0)"
  by (simp add: gradient_descent_def gd_final_def steepest_gradient_descent_def
      gd_loop_no_test sgd_loop_no_test gd_init_def sgd_init_def Let_def)

text \<open>Two steps on the test problem.\<close>

theorem no_accept_test_runs_max_steps_witness:
  "(0::int) \<le> 2 \<and>
   (let r = gradient_descent sbt_f sbt_df [4, 3] (1 / 10) 2 (1 / 1000000) False None
    in \<not> success r \<and> int (nit r) = 2 \<and> x_opt r = [73 / 25, 57 / 25]) \<and>
   (let r = steepest_gradient_descent sbt_f sbt_df [1, 1] 2 (1 / 1000000) False None
    in \<not> success r \<and> int (nit r) = 2 \<and> x_opt r = [1, 1])"
proof -
  have x1: "gd_update sbt_df (1 / 10) [4, 3] = [17 / 5, 13 / 5]"
    by (simp add: gd_update_def sbt_df_def vsub_def smul_def)
  have x2: "gd_update sbt_df (1 / 10) [17 / 5, 13 / 5] = [73 / 25, 57 / 25]"
    by (simp add: gd_update_def sbt_df_def vsub_def smul_def)
  have y: "sgd_update sbt_f sbt_df [1, 1] = [1, 1]"
    by (simp add: sgd_update_def sbt_df_def vsub_def smul_def Let_def)
  have n: "(gd_update sbt_df (1 / 10) ^^ 2) [4, 3] = [73 / 25, 57 / 25]"
    "(sgd_update sbt_f sbt_df ^^ 2) [1, 1] = [1, 1]"
    by (simp_all add: numeral_2_eq_2 x1 x2 y)
  from no_accept_test_runs_max_steps [of 2 sbt_f sbt_df "[4, 3]" "1 / 10" "1 / 1000000" False sbt_f sbt_df "[1, 1]"]
  show ?thesis
    by (simp add: Let_def n)
qed

text \<open>C7: with \<^verbatim>\<open>max_steps = 0\<close> every operation returns without an iteration:
  \<^verbatim>\<open>success = False\<close>, \<^verbatim>\<open>nit = 0\<close>, and the solution is the midpoint of the initial
  bracket for the three searches and the starting point for the two descent methods.\<close>

theorem max_steps_zero:
  "binary_search g a b accuracy 0 =
     \<lparr>success = False, message = '''', fun_value = g ((a + b) / 2), jac = None,
      nfev = 0, njev = 0, nhev = 0, nit = 0, x_opt = (a + b) / 2, trajectory = None\<rparr> \<and>
   golden_search g a b accuracy 0 =
     \<lparr>success = False, message = '''', fun_value = g ((a + b) / 2), jac = None,
      nfev = 0, njev = 0, nhev = 0, nit = 0, x_opt = (a + b) / 2, trajectory = None\<rparr> \<and>
   parabolic_search g a b accuracy 0 =
     Inr \<lparr>success = False, message = '''', fun_value = g ((a + b) / 2), jac = None,
      nfev = 0, njev = 0, nhev = 0, nit = 0, x_opt = (a + b) / 2, trajectory = None\<rparr> \<and>
   gradient_descent f df x0 step_size 0 accuracy trajectory_flag accept_test =
     \<lparr>success = False, message = '''', fun_value = f x0, jac = Some (df x0),
      nfev = 0, njev = 0, nhev = 0, nit = 0, x_opt = x0,
      trajectory = (if trajectory_flag then Some [] else None)\<rparr> \<and>
   steepest_gradient_descent f df x0 0 accuracy trajectory_flag accept_test =
     \<lparr>success = False, message = '''', fun_value = f x0, jac = Some (df x0),
      nfev = 0, njev = 0, nhev = 0, nit = 0, x_opt = x0,
      trajectory = (if trajectory_flag then Some [] else None)\<rparr>"
  by (simp add: binary_search_def bs_init_def golden_search_def gs_init_def
      parabolic_search_def ps_init_def gradient_descent_def gd_final_def gd_init_def
      steepest_gradient_descent_def sgd_init_def Let_def)

text \<open>C8: \<^verbatim>\<open>gradient_descent\<close> calls the objective exactly once, at the final point for
  the argument \<^verbatim>\<open>fun\<close> of the result; the loop does not call it and leaves \<^verbatim>\<open>nfev\<close> at
  0 after any number of iterations, so the result has \<^verbatim>\<open>nfev = 0\<close> (and \<^verbatim>\<open>nhev = 0\<close>).\<close>

theorem gradient_descent_objective_calls:
  "filter is_Call_f
     (gradient_descent_calls df x0 step_size max_steps accuracy trajectory_flag accept_test) =
     [Call_f (x_opt (gradient_descent f df x0 step_size max_steps accuracy trajectory_flag
        accept_test))] \<and>
   nfev (gradient_descent f df x0 step_size max_steps accuracy trajectory_flag accept_test) = 0 \<and>
   nhev (gradient_descent f df x0 step_size max_steps accuracy trajectory_flag accept_test) = 0 \<and>
   (\<forall>n. gd_nfev (gd_loop df step_size accuracy trajectory_flag accept_test n (gd_init x0)) = 0 \<and>
        filter is_Call_f
          (gd_calls (gd_loop df step_size accuracy trajectory_flag accept_test n (gd_init x0))) = [])"
  by (simp add: gradient_descent_calls_def gradient_descent_def gd_final_def Let_def
      gd_loop_no_f gd_init_def)







end
